theory Spec2Isabelle
  imports Complex_Main "HOL-Library.Sublist" "HOL-Library.Log_Nat"
begin
section \<open>Values\<close>

text \<open>
  A Python float is modelled by the number it denotes. The amounts of this program come
  from strings of digits, a product with a positive constant, a rounding and a sum, so
  they are never negative and never NaN; \<open>Infinity\<close> is what an overflow yields.
\<close>

datatype pyfloat = Finite rat | Infinity

text \<open>
  The value of a worksheet cell: \<open>None\<close>, an \<open>int\<close>, a \<open>str\<close> or a \<open>float\<close>.
\<close>

datatype cell = CNone | CInt int | CStr string | CFloat pyfloat

text \<open>Python's truth value of a cell, as tested by \<open>if x\<close>, \<open>not x\<close> and \<open>x or y\<close>.\<close>

fun truthy :: "cell \<Rightarrow> bool" where
  "truthy CNone = False"
| "truthy (CInt i) = (i \<noteq> 0)"
| "truthy (CStr s) = (s \<noteq> [])"
| "truthy (CFloat f) = (f \<noteq> Finite 0)"

definition py_or :: "cell \<Rightarrow> cell \<Rightarrow> cell" where
  "py_or a b = (if truthy a then a else b)"

text \<open>
  The dictionaries \<open>invoice_data\<close> and \<open>po_data\<close>: one field for each key the program
  ever writes, \<open>None\<close> when the key is absent. \<open>get_str\<close> is \<open>d.get(key, '')\<close> on a key
  that holds a string.
\<close>

record data =
  invoice_number :: "string option"
  invoice_date :: "string option"
  po_number :: "string option"
  po_date :: "string option"
  gr_id :: "string option"
  gr_date :: "string option"
  subtotal :: "pyfloat option"
  tax :: "pyfloat option"
  grand_total :: "pyfloat option"
  status :: "string option"
  po_amount :: "cell option"
  department :: "string option"

definition empty_data :: data where
  "empty_data = \<lparr> invoice_number = None, invoice_date = None, po_number = None,
     po_date = None, gr_id = None, gr_date = None, subtotal = None, tax = None,
     grand_total = None, status = None, po_amount = None, department = None \<rparr>"

definition get_str :: "string option \<Rightarrow> string" where
  "get_str v = (case v of None \<Rightarrow> [] | Some s \<Rightarrow> s)"

definition get_float :: "pyfloat option \<Rightarrow> cell" where
  \<comment> \<open>\<open>d.get(key, 0)\<close> on a key that holds a float\<close>
  "get_float v = (case v of None \<Rightarrow> CInt 0 | Some x \<Rightarrow> CFloat x)"

section \<open>The workbook\<close>

text \<open>
  A worksheet is the list of its rows below the header row, which
  \<open>_create_po_sheet\<close> and \<open>_create_invoice_sheet\<close> write when the sheet is created; a row
  is the list of its cell values. \<open>max_row\<close> counts the header, and
  \<open>iter_rows(min_row=2, values_only=True)\<close> yields the rows below it, each as wide as the
  sheet, with \<open>None\<close> for a cell that holds nothing: \<open>cell_at\<close> is \<open>row[i]\<close> there.
\<close>

type_synonym row = "cell list"

record workbook =
  PO_Details :: "row list"
  Invoice_Details :: "row list"

definition fresh :: workbook where
  \<comment> \<open>\<open>_initialize_excel\<close> when the file does not exist yet\<close>
  "fresh = \<lparr> PO_Details = [], Invoice_Details = [] \<rparr>"

definition max_row :: "row list \<Rightarrow> nat" where
  "max_row ws = length ws + 1"

definition cell_at :: "row \<Rightarrow> nat \<Rightarrow> cell" where
  "cell_at r i = (if i < length r then r ! i else CNone)"

definition get_next_serial_number :: "row list \<Rightarrow> nat" where
  "get_next_serial_number ws =
     (let max_row' = max_row ws in if max_row' = 1 then 1 else max_row')"

fun lookup_rows :: "row list \<Rightarrow> string \<Rightarrow> cell \<times> cell" where
  "lookup_rows [] po = (CNone, CNone)"
| "lookup_rows (r # rs) po =
     (if cell_at r 1 = CStr po then (cell_at r 2, cell_at r 4) else lookup_rows rs po)"

definition lookup_po_details :: "workbook \<Rightarrow> string \<Rightarrow> cell \<times> cell" where
  "lookup_po_details wb po = lookup_rows (PO_Details wb) po"

definition add_po_record :: "data \<Rightarrow> workbook \<Rightarrow> workbook" where
  "add_po_record po_data wb =
     (let ws = PO_Details wb;
          serial = get_next_serial_number ws;
          r = [ CInt (int serial),
                CStr (get_str (po_number po_data)),
                CStr (get_str (po_date po_data)),
                (case po_amount po_data of None \<Rightarrow> CInt 0 | Some a \<Rightarrow> a),
                CStr (case department po_data of None \<Rightarrow> ''N/A'' | Some d \<Rightarrow> d) ]
      in wb\<lparr> PO_Details := ws @ [r] \<rparr>)"

fun exists_rows :: "row list \<Rightarrow> string \<Rightarrow> bool" where
  "exists_rows [] n = False"
| "exists_rows (r # rs) n = (if cell_at r 1 = CStr n then True else exists_rows rs n)"

definition invoice_exists :: "workbook \<Rightarrow> string \<Rightarrow> bool" where
  "invoice_exists wb n = exists_rows (Invoice_Details wb) n"

definition po_stub :: "string \<Rightarrow> data \<Rightarrow> data" where
  \<comment> \<open>the dictionary \<open>po_data\<close> that \<open>add_invoice_record\<close> builds for an unknown PO\<close>
  "po_stub po invoice_data = empty_data \<lparr> po_number := Some po,
     po_date := Some (get_str (po_date invoice_data)),
     po_amount := Some (CInt 0),
     department := Some ''N/A'' \<rparr>"

definition link_po :: "data \<Rightarrow> workbook \<Rightarrow> workbook \<times> cell \<times> cell" where
  \<comment> \<open>lines 463 to 480: the workbook after the lookup, \<open>po_date_from_sheet\<close> and
      \<open>department_from_sheet\<close>\<close>
  "link_po invoice_data wb =
     (let po = get_str (po_number invoice_data) in
      if po \<noteq> [] then
        (let (po_date_from_sheet, department_from_sheet) = lookup_po_details wb po in
         if \<not> truthy po_date_from_sheet then
           (let wb' = add_po_record (po_stub po invoice_data) wb;
                (po_date_from_sheet', department_from_sheet') = lookup_po_details wb' po
            in (wb', po_date_from_sheet', department_from_sheet'))
         else (wb, po_date_from_sheet, department_from_sheet))
      else (wb, CNone, CNone))"

definition invoice_row :: "nat \<Rightarrow> data \<Rightarrow> cell \<Rightarrow> cell \<Rightarrow> row" where
  \<comment> \<open>lines 483 to 499\<close>
  "invoice_row serial invoice_data po_date_from_sheet department_from_sheet =
     (let po_date' = py_or po_date_from_sheet (CStr (get_str (po_date invoice_data)));
          department' = py_or department_from_sheet (CStr ''N/A'')
      in [ CInt (int serial),
           CStr (get_str (invoice_number invoice_data)),
           CStr (get_str (invoice_date invoice_data)),
           CStr (get_str (po_number invoice_data)),
           po_date',
           department',
           CStr (get_str (gr_id invoice_data)),
           CStr (get_str (gr_date invoice_data)),
           get_float (subtotal invoice_data),
           get_float (tax invoice_data),
           get_float (grand_total invoice_data),
           CStr (case status invoice_data of None \<Rightarrow> ''UnPaid'' | Some s \<Rightarrow> s) ])"

definition add_invoice_record :: "data \<Rightarrow> workbook \<Rightarrow> workbook" where
  "add_invoice_record invoice_data wb =
     (let n = get_str (invoice_number invoice_data) in
      if n \<noteq> [] \<and> invoice_exists wb n then wb
      else
        (let serial = get_next_serial_number (Invoice_Details wb);
             (wb', po_date_from_sheet, department_from_sheet) = link_po invoice_data wb;
             r = invoice_row serial invoice_data po_date_from_sheet department_from_sheet
         in wb'\<lparr> Invoice_Details := Invoice_Details wb' @ [r] \<rparr>))"


text \<open>
  What the claims about the store speak of: how many rows of a sheet carry a given
  number in column 1, the serial column of a sheet, and the workbooks the program can
  build from a new file with its two insert operations.
\<close>

definition count_number :: "string \<Rightarrow> row list \<Rightarrow> nat" where
  "count_number n ws = length (filter (\<lambda>r. cell_at r 1 = CStr n) ws)"




section \<open>Amounts\<close>

text \<open>
  Python's float is the IEEE 754 binary64 format: every operation returns the
  representable number nearest to the exact result, ties going to the even significand.
  \<open>to_double\<close> is that rounding on a non-negative rational: 53 significant bits, least
  exponent \<open>-1074\<close>, and \<open>Infinity\<close> from \<open>2 ^ 1024\<close> on.
\<close>

definition pow2 :: "int \<Rightarrow> rat" where
  "pow2 e = (if 0 \<le> e then 2 ^ nat e else 1 / 2 ^ nat (- e))"

definition round_half_even :: "rat \<Rightarrow> int" where
  "round_half_even q =
     (let f = \<lfloor>q\<rfloor>; r = q - of_int f
      in if r < 1 / 2 then f else if 1 / 2 < r then f + 1 else if even f then f else f + 1)"

definition floor_log2 :: "rat \<Rightarrow> int" where
  \<comment> \<open>the integer \<open>k\<close> with \<open>2 ^ k \<le> x < 2 ^ (k + 1)\<close>, for \<open>0 < x\<close>\<close>
  "floor_log2 x =
     (if 1 \<le> x then int (floorlog 2 (nat \<lfloor>x\<rfloor>)) - 1
      else - int (floorlog 2 (nat \<lceil>1 / x\<rceil> - 1)))"

definition to_double :: "rat \<Rightarrow> pyfloat" where
  "to_double x =
     (if x = 0 then Finite 0
      else
        (let e = max (floor_log2 x - 52) (- 1074);
             y = of_int (round_half_even (x / pow2 e)) * pow2 e
         in if pow2 1024 \<le> y then Infinity else Finite y))"

definition float_0_12 :: rat where
  \<comment> \<open>the float that the literal \<open>0.12\<close> denotes\<close>
  "float_0_12 = 1080863910568919 / 9007199254740992"

fun times_0_12 :: "pyfloat \<Rightarrow> pyfloat" where
  \<comment> \<open>\<open>x * 0.12\<close>\<close>
  "times_0_12 (Finite x) = to_double (x * float_0_12)"
| "times_0_12 Infinity = Infinity"

fun round2 :: "pyfloat \<Rightarrow> pyfloat" where
  \<comment> \<open>\<open>round(x, 2)\<close>: the nearest decimal with two places, ties to even, as a float again\<close>
  "round2 (Finite x) = to_double (of_int (round_half_even (x * 100)) / 100)"
| "round2 Infinity = Infinity"

fun float_add :: "pyfloat \<Rightarrow> pyfloat \<Rightarrow> pyfloat" where
  "float_add (Finite x) (Finite y) = to_double (x + y)"
| "float_add Infinity y = Infinity"
| "float_add x Infinity = Infinity"

text \<open>
  \<open>float(s)\<close> on the strings the amount patterns capture, once the commas are removed:
  digits with at most one dot. It raises \<open>ValueError\<close> (here \<open>None\<close>) when no digit is
  left, and returns the float nearest to the decimal otherwise.
\<close>

definition is_digit :: "char \<Rightarrow> bool" where
  "is_digit c = (c \<in> set ''0123456789'')"

definition digit_value :: "char \<Rightarrow> nat" where
  "digit_value c =
     (case map_of (zip ''0123456789'' [0, 1, 2, 3, 4, 5, 6, 7, 8, 9]) c of
        Some v \<Rightarrow> v
      | None \<Rightarrow> 0)"

definition nat_of_digits :: "string \<Rightarrow> nat" where
  "nat_of_digits s = foldl (\<lambda>n c. 10 * n + digit_value c) 0 s"

definition py_float :: "string \<Rightarrow> pyfloat option" where
  "py_float s =
     (let a = takeWhile (\<lambda>c. c \<noteq> CHR ''.'') s;
          b = drop 1 (dropWhile (\<lambda>c. c \<noteq> CHR ''.'') s)
      in if list_all is_digit a \<and> list_all is_digit b \<and> (a \<noteq> [] \<or> b \<noteq> [])
         then Some (to_double (of_nat (nat_of_digits (a @ b)) / 10 ^ length b))
         else None)"

definition parse_amount :: "string \<Rightarrow> pyfloat" where
  "parse_amount amount_str =
     (case py_float (filter (\<lambda>c. c \<noteq> CHR '','') amount_str) of
        Some x \<Rightarrow> x
      | None \<Rightarrow> Finite 0)"

section \<open>Derived fields\<close>

text \<open>Lines 328 to 338 of \<open>parse_invoice_data\<close>, on the dictionary built so far.\<close>

definition calculate_tax :: "data \<Rightarrow> data" where
  "calculate_tax d =
     (case (subtotal d, tax d) of
        (Some s, None) \<Rightarrow> d\<lparr> tax := Some (round2 (times_0_12 s)) \<rparr>
      | _ \<Rightarrow> d)"

definition calculate_grand_total :: "data \<Rightarrow> data" where
  "calculate_grand_total d =
     (case (subtotal d, grand_total d) of
        (Some s, None) \<Rightarrow>
          d\<lparr> grand_total := Some (float_add s (case tax d of None \<Rightarrow> Finite 0 | Some t \<Rightarrow> t)) \<rparr>
      | _ \<Rightarrow> d)"

definition derive :: "data \<Rightarrow> data" where
  "derive d = (calculate_grand_total (calculate_tax d)) \<lparr> status := Some ''UnPaid'' \<rparr>"

section \<open>Text\<close>

text \<open>
  The extracted text is a string of characters with code points below 256. On these,
  \<open>is_space\<close> is \<open>str.isspace\<close> and the class \<open>\s\<close>, \<open>is_digit\<close> is the class \<open>\d\<close>,
  \<open>is_word\<close> is the class \<open>\w\<close>, and \<open>lower_char\<close> is \<open>str.lower\<close> on one character.
\<close>

definition code_point :: "char \<Rightarrow> nat" where
  "code_point c = of_char c"

definition is_space :: "char \<Rightarrow> bool" where
  "is_space c = (let n = code_point c
                 in (9 \<le> n \<and> n \<le> 13) \<or> (28 \<le> n \<and> n \<le> 32) \<or> n = 133 \<or> n = 160)"

definition ascii_lower :: "char \<Rightarrow> char" where
  "ascii_lower c =
     (case map_of (zip ''ABCDEFGHIJKLMNOPQRSTUVWXYZ'' ''abcdefghijklmnopqrstuvwxyz'') c of
        Some l \<Rightarrow> l
      | None \<Rightarrow> c)"

definition lower_char :: "char \<Rightarrow> char" where
  "lower_char c =
     (let n = code_point c
      in if 192 \<le> n \<and> n \<le> 222 \<and> n \<noteq> 215 then char_of (n + 32) else ascii_lower c)"

definition is_word :: "char \<Rightarrow> bool" where
  "is_word c =
     (let n = code_point c
      in (48 \<le> n \<and> n \<le> 57) \<or> (65 \<le> n \<and> n \<le> 90) \<or> n = 95 \<or> (97 \<le> n \<and> n \<le> 122)
         \<or> n = 170 \<or> n = 178 \<or> n = 179 \<or> n = 181 \<or> n = 185 \<or> n = 186
         \<or> (188 \<le> n \<and> n \<le> 190) \<or> (192 \<le> n \<and> n \<le> 214) \<or> (216 \<le> n \<and> n \<le> 246)
         \<or> 248 \<le> n)"

definition lower :: "string \<Rightarrow> string" where
  "lower s = map lower_char s"

definition strip :: "string \<Rightarrow> string" where
  "strip s = rev (dropWhile is_space (rev (dropWhile is_space s)))"

section \<open>Classification\<close>

text \<open>
  Lines 538 to 559 of \<open>process_file\<close>: the two tests on the lowered text and the order in
  which the branches are taken. \<open>sublist x s\<close> is Python's \<open>x in s\<close> on strings.
\<close>

datatype doc_type = Invoice | PurchaseOrder | Unknown

definition is_invoice :: "string \<Rightarrow> bool" where
  "is_invoice text = (sublist ''invoice'' (lower text) \<and> sublist ''invoice no'' (lower text))"

definition is_po :: "string \<Rightarrow> bool" where
  "is_po text = (sublist ''purchase order'' (lower text)
                 \<or> (sublist ''po no'' (lower text) \<and> \<not> sublist ''invoice'' (lower text)))"

definition classify :: "string \<Rightarrow> doc_type" where
  "classify text = (if is_invoice text then Invoice
                    else if is_po text then PurchaseOrder
                    else Unknown)"

section \<open>Dates\<close>

text \<open>
  \<open>datetime.strptime\<close> turns the format into a regular expression, one group for each
  directive, takes the first match of it at the start of the string (alternatives from
  left to right, letters without regard to case), and raises \<open>ValueError\<close> when there is
  no match, when the match does not reach the end of the string, or when the day does
  not exist in the month. A directive is modelled by the list of its alternatives that
  match, in that order, each with its value and the rest of the string.
\<close>

datatype directive = Pd | Pb | Pm | Py | PY | Lit char

definition nonzero_digit :: "char \<Rightarrow> bool" where
  "nonzero_digit c = (c \<in> set ''123456789'')"

definition directive_d :: "string \<Rightarrow> (nat \<times> string) list" where
  \<comment> \<open>\<open>3[0-1]|[1-2]\d|0[1-9]|[1-9]| [1-9]\<close>\<close>
  "directive_d s =
     (case s of
        [] \<Rightarrow> []
      | [a] \<Rightarrow> (if nonzero_digit a then [(digit_value a, [])] else [])
      | a # b # r \<Rightarrow>
          (if a = CHR ''3'' \<and> b \<in> set ''01'' then [(30 + digit_value b, r)] else [])
          @ (if a \<in> set ''12'' \<and> is_digit b then [(10 * digit_value a + digit_value b, r)]
             else [])
          @ (if a = CHR ''0'' \<and> nonzero_digit b then [(digit_value b, r)] else [])
          @ (if nonzero_digit a then [(digit_value a, b # r)] else [])
          @ (if a = CHR '' '' \<and> nonzero_digit b then [(digit_value b, r)] else []))"

definition directive_m :: "string \<Rightarrow> (nat \<times> string) list" where
  \<comment> \<open>\<open>1[0-2]|0[1-9]|[1-9]\<close>\<close>
  "directive_m s =
     (case s of
        [] \<Rightarrow> []
      | [a] \<Rightarrow> (if nonzero_digit a then [(digit_value a, [])] else [])
      | a # b # r \<Rightarrow>
          (if a = CHR ''1'' \<and> b \<in> set ''012'' then [(10 + digit_value b, r)] else [])
          @ (if a = CHR ''0'' \<and> nonzero_digit b then [(digit_value b, r)] else [])
          @ (if nonzero_digit a then [(digit_value a, b # r)] else []))"

definition month_names :: "(string \<times> nat) list" where
  "month_names = [(''jan'', 1), (''feb'', 2), (''mar'', 3), (''apr'', 4), (''may'', 5),
     (''jun'', 6), (''jul'', 7), (''aug'', 8), (''sep'', 9), (''oct'', 10), (''nov'', 11),
     (''dec'', 12)]"

definition directive_b :: "string \<Rightarrow> (nat \<times> string) list" where
  \<comment> \<open>\<open>jan|feb|mar|apr|may|jun|jul|aug|sep|oct|nov|dec\<close>\<close>
  "directive_b s =
     (case map_of month_names (lower (take 3 s)) of
        Some m \<Rightarrow> [(m, drop 3 s)]
      | None \<Rightarrow> [])"

definition directive_y :: "string \<Rightarrow> (nat \<times> string) list" where
  \<comment> \<open>\<open>\d\d\<close>; 00 to 68 are the years 2000 to 2068, 69 to 99 the years 1969 to 1999\<close>
  "directive_y s =
     (case s of
        a # b # r \<Rightarrow>
          (if is_digit a \<and> is_digit b
           then (let n = nat_of_digits [a, b]
                 in [(if n \<le> 68 then n + 2000 else n + 1900, r)])
           else [])
      | _ \<Rightarrow> [])"

definition directive_Y :: "string \<Rightarrow> (nat \<times> string) list" where
  \<comment> \<open>\<open>\d\d\d\d\<close>\<close>
  "directive_Y s =
     (case s of
        a # b # c # d # r \<Rightarrow>
          (if is_digit a \<and> is_digit b \<and> is_digit c \<and> is_digit d
           then [(nat_of_digits [a, b, c, d], r)]
           else [])
      | _ \<Rightarrow> [])"

record date =
  year :: nat
  month :: nat
  day :: nat

text \<open>
  The matches of a whole format, in the order in which the regular expression finds
  them: the fields found so far and the rest of the string.
\<close>

fun matches :: "directive list \<Rightarrow> date \<Rightarrow> string \<Rightarrow> (date \<times> string) list" where
  "matches [] f s = [(f, s)]"
| "matches (Pd # ds) f s = concat (map (\<lambda>(v, r). matches ds (f\<lparr> day := v \<rparr>) r) (directive_d s))"
| "matches (Pb # ds) f s = concat (map (\<lambda>(v, r). matches ds (f\<lparr> month := v \<rparr>) r) (directive_b s))"
| "matches (Pm # ds) f s = concat (map (\<lambda>(v, r). matches ds (f\<lparr> month := v \<rparr>) r) (directive_m s))"
| "matches (Py # ds) f s = concat (map (\<lambda>(v, r). matches ds (f\<lparr> year := v \<rparr>) r) (directive_y s))"
| "matches (PY # ds) f s = concat (map (\<lambda>(v, r). matches ds (f\<lparr> year := v \<rparr>) r) (directive_Y s))"
| "matches (Lit c # ds) f s =
     (case s of [] \<Rightarrow> [] | x # r \<Rightarrow> if x = c then matches ds f r else [])"

definition is_leap :: "nat \<Rightarrow> bool" where
  "is_leap y = (y mod 4 = 0 \<and> (y mod 100 \<noteq> 0 \<or> y mod 400 = 0))"

definition days_in_month :: "nat \<Rightarrow> nat \<Rightarrow> nat" where
  "days_in_month y m =
     (if m = 2 then (if is_leap y then 29 else 28)
      else if m \<in> {4, 6, 9, 11} then 30 else 31)"

definition valid_date :: "date \<Rightarrow> bool" where
  \<comment> \<open>the dates \<open>datetime\<close> accepts\<close>
  "valid_date dt = (1 \<le> year dt \<and> year dt \<le> 9999 \<and> 1 \<le> month dt \<and> month dt \<le> 12
                    \<and> 1 \<le> day dt \<and> day dt \<le> days_in_month (year dt) (month dt))"

definition strptime :: "string \<Rightarrow> directive list \<Rightarrow> date option" where
  \<comment> \<open>a field the format does not set is 1900, month 1, day 1\<close>
  "strptime date_str fmt =
     (case matches fmt \<lparr> year = 1900, month = 1, day = 1 \<rparr> date_str of
        [] \<Rightarrow> None
      | (dt, rest) # _ \<Rightarrow> if rest = [] \<and> valid_date dt then Some dt else None)"

text \<open>
  \<open>strftime('%d-%b-%Y')\<close>: the day with two digits, the English short name of the month,
  and the year with century in the four-digit form \<open>0001\<close> to \<open>9999\<close> that the library
  documents and \<open>%Y\<close> of \<open>strptime\<close> reads back.
\<close>

definition digit_char :: "nat \<Rightarrow> char" where
  "digit_char n = ''0123456789'' ! n"

definition month_abbr :: "nat \<Rightarrow> string" where
  "month_abbr m = [''Jan'', ''Feb'', ''Mar'', ''Apr'', ''May'', ''Jun'',
                   ''Jul'', ''Aug'', ''Sep'', ''Oct'', ''Nov'', ''Dec''] ! (m - 1)"

definition strftime :: "date \<Rightarrow> string" where
  "strftime dt =
     [digit_char (day dt div 10), digit_char (day dt mod 10)] @ ''-''
     @ month_abbr (month dt) @ ''-''
     @ [digit_char (year dt div 1000), digit_char (year dt div 100 mod 10),
        digit_char (year dt div 10 mod 10), digit_char (year dt mod 10)]"

definition formats :: "directive list list" where
  "formats =
     [ [Pd, Lit CHR ''-'', Pb, Lit CHR ''-'', Py], [Pd, Lit CHR ''-'', Pb, Lit CHR ''-'', PY],
       [Pd, Lit CHR ''/'', Pb, Lit CHR ''/'', Py], [Pd, Lit CHR ''/'', Pb, Lit CHR ''/'', PY],
       [Pd, Lit CHR ''-'', Pm, Lit CHR ''-'', Py], [Pd, Lit CHR ''-'', Pm, Lit CHR ''-'', PY],
       [Pd, Lit CHR ''/'', Pm, Lit CHR ''/'', Py], [Pd, Lit CHR ''/'', Pm, Lit CHR ''/'', PY] ]"

fun try_formats :: "directive list list \<Rightarrow> string \<Rightarrow> date option" where
  "try_formats [] date_str = None"
| "try_formats (fmt # fmts) date_str =
     (case strptime date_str fmt of
        Some dt \<Rightarrow> Some dt
      | None \<Rightarrow> try_formats fmts date_str)"

definition parse_date :: "string \<Rightarrow> string" where
  "parse_date date_str =
     (case try_formats formats date_str of
        Some dt \<Rightarrow> strftime dt
      | None \<Rightarrow> date_str)"

section \<open>The record store\<close>

subsection \<open>Scanning and appending\<close>






lemma next_serial: "get_next_serial_number ws = length ws + 1"
  by (simp add: get_next_serial_number_def max_row_def Let_def)



lemma link_po_invoices: "Invoice_Details (fst (link_po d wb)) = Invoice_Details wb"
  by (simp add: link_po_def add_po_record_def lookup_po_details_def Let_def split: prod.splits)


text \<open>
  A purchase order that is found with a date is linked as it stands: nothing is appended
  to the PO sheet.
\<close>

lemma dated_po_is_linked:
  assumes "po_number d = Some po" and "po \<noteq> []"
    and "lookup_po_details wb po = (pd, dep)" and "truthy pd"
  shows "link_po d wb = (wb, pd, dep)"
  using assms by (simp add: link_po_def get_str_def Let_def)

lemma invoice_row_number:
  "cell_at (invoice_row s d a b) (Suc 0) = CStr (get_str (invoice_number d))"
  by (simp add: invoice_row_def cell_at_def Let_def)


lemma add_invoice_record_rows:
  "Invoice_Details (add_invoice_record d wb) =
     (if get_str (invoice_number d) \<noteq> [] \<and> invoice_exists wb (get_str (invoice_number d))
      then Invoice_Details wb
      else Invoice_Details wb @
        [invoice_row (length (Invoice_Details wb) + 1) d
           (fst (snd (link_po d wb))) (snd (snd (link_po d wb)))])"
proof -
  obtain wb' p q where l: "link_po d wb = (wb', p, q)" by (cases "link_po d wb")
  have "Invoice_Details wb' = Invoice_Details wb" using link_po_invoices [of d wb] l by simp
  then show ?thesis by (simp add: add_invoice_record_def l next_serial Let_def)
qed


subsection \<open>Serial numbers\<close>







subsection \<open>The duplicate gate\<close>



text \<open>
  C10. The gate looks at non-empty invoice numbers only. When the invoice number of the
  data is absent or empty, every call of \<open>add_invoice_record\<close> appends one row with an
  empty invoice number: after \<open>k\<close> calls the sheet is \<open>k\<close> rows longer and holds \<open>k\<close> more
  rows whose invoice number is empty.
\<close>

theorem empty_invoice_number_always_appended:
  assumes "invoice_number d = None \<or> invoice_number d = Some []"
  shows "count_number [] (Invoice_Details ((add_invoice_record d ^^ k) wb))
           = count_number [] (Invoice_Details wb) + k
       \<and> length (Invoice_Details ((add_invoice_record d ^^ k) wb))
           = length (Invoice_Details wb) + k"
proof -
  have g: "get_str (invoice_number d) = []" using assms by (auto simp: get_str_def)
  show ?thesis
    by (induction k)
       (simp_all add: add_invoice_record_rows g count_number_def invoice_row_number)
qed

theorem empty_invoice_number_always_appended_witness:
  "invoice_number empty_data = None
   \<and> count_number [] (Invoice_Details
        (add_invoice_record empty_data (add_invoice_record empty_data fresh))) = 2
   \<and> length (Invoice_Details
        (add_invoice_record empty_data (add_invoice_record empty_data fresh))) = 2"
proof -
  have n: "invoice_number empty_data = None" by (simp add: empty_data_def)
  have t: "count_number [] (Invoice_Details
             (add_invoice_record empty_data (add_invoice_record empty_data fresh)))
           = count_number [] (Invoice_Details fresh) + 2
       \<and> length (Invoice_Details
             (add_invoice_record empty_data (add_invoice_record empty_data fresh)))
           = length (Invoice_Details fresh) + 2"
    using n empty_invoice_number_always_appended [of empty_data 2 fresh]
    by (simp add: numeral_2_eq_2)
  show ?thesis using n t by (simp add: count_number_def fresh_def)
qed

subsection \<open>Linking an invoice to its purchase order\<close>




text \<open>
  C3. The code decides whether to create a stub by the truth value of the PO date it
  looked up, not by whether a row was found. A purchase order stored without a date is
  found and still counts as missing: below, PO 9999 (amount 500, department Finance, no
  date) is in the sheet, and inserting an invoice that refers to 9999 appends a second
  row for 9999 to \<open>PO_Details\<close>. The invoice row takes its department from the first row.
\<close>

theorem undated_po_gets_second_row:
  "add_invoice_record
     (empty_data \<lparr> invoice_number := Some ''A1001'', po_number := Some ''9999'' \<rparr>)
     (add_po_record (empty_data \<lparr> po_number := Some ''9999'',
        po_amount := Some (CFloat (Finite 500)), department := Some ''Finance'' \<rparr>) fresh)
   = \<lparr> PO_Details = [[CInt 1, CStr ''9999'', CStr [], CFloat (Finite 500), CStr ''Finance''],
                      [CInt 2, CStr ''9999'', CStr [], CInt 0, CStr ''N/A'']],
       Invoice_Details = [[CInt 1, CStr ''A1001'', CStr [], CStr ''9999'', CStr [],
                           CStr ''Finance'', CStr [], CStr [], CInt 0, CInt 0, CInt 0,
                           CStr ''UnPaid'']] \<rparr>"
  by (simp add: add_invoice_record_def add_po_record_def link_po_def invoice_row_def fresh_def
      empty_data_def po_stub_def lookup_po_details_def
      get_str_def get_float_def invoice_exists_def cell_at_def py_or_def
      get_next_serial_number_def max_row_def Let_def)

section \<open>Amounts and derived fields\<close>

lemma floor_rat_numeral: "\<lfloor>numeral a / numeral b :: rat\<rfloor> = numeral a div numeral b"
  by (metis floor_divide_of_int_eq of_int_numeral)

lemma ceiling_rat_numeral:
  "\<lceil>numeral a / numeral b :: rat\<rceil> = - ((- numeral a) div numeral b)"
  by (metis ceiling_def floor_divide_of_int_eq of_int_numeral of_int_minus minus_divide_left)

lemmas float_eval = to_double_def floor_log2_def pow2_def round_half_even_def Let_def
  compute_floorlog floor_rat_numeral ceiling_rat_numeral float_0_12_def

text \<open>The constant is the float nearest to twelve hundredths.\<close>

lemma float_0_12_nearest: "to_double (12 / 100) = Finite float_0_12"
  by (simp add: float_eval)

lemma parse_amount_1000: "parse_amount ''1,000.00'' = Finite 1000"
  by (simp add: float_eval parse_amount_def py_float_def is_digit_def nat_of_digits_def
      digit_value_def)

lemma tax_of_1000: "round2 (times_0_12 (Finite 1000)) = Finite 120"
  by (simp add: float_eval)

lemma total_of_1000: "float_add (Finite 1000) (Finite 120) = Finite 1120"
  by (simp add: float_eval)

text \<open>Rounding to two places takes a tie to the even digit, as Python does.\<close>

lemma round2_tie: "round2 (Finite (1 / 8)) = to_double (12 / 100)"
  by (simp add: float_eval)

text \<open>
  C4. When the subtotal is present with value \<open>S\<close> and neither tax nor grand total was
  extracted, the derivation sets the tax to \<open>round(S * 0.12, 2)\<close>, the grand total to
  \<open>S\<close> plus that tax, and the status to UnPaid.
\<close>

theorem derive_tax_and_total:
  assumes "subtotal d = Some S" and "tax d = None" and "grand_total d = None"
  shows "tax (derive d) = Some (round2 (times_0_12 S))
       \<and> grand_total (derive d) = Some (float_add S (round2 (times_0_12 S)))
       \<and> status (derive d) = Some ''UnPaid''"
  using assms by (simp add: derive_def calculate_tax_def calculate_grand_total_def)

theorem derive_tax_and_total_witness:
  "tax (derive (empty_data \<lparr> subtotal := Some (Finite 1000) \<rparr>)) = Some (Finite 120)
   \<and> grand_total (derive (empty_data \<lparr> subtotal := Some (Finite 1000) \<rparr>)) = Some (Finite 1120)
   \<and> status (derive (empty_data \<lparr> subtotal := Some (Finite 1000) \<rparr>)) = Some ''UnPaid''"
proof -
  let ?d = "empty_data \<lparr> subtotal := Some (Finite 1000) \<rparr>"
  have t: "tax (derive ?d) = Some (round2 (times_0_12 (Finite 1000)))
       \<and> grand_total (derive ?d)
           = Some (float_add (Finite 1000) (round2 (times_0_12 (Finite 1000))))
       \<and> status (derive ?d) = Some ''UnPaid''"
    by (rule derive_tax_and_total) (simp_all add: empty_data_def)
  show ?thesis using t by (simp only: tax_of_1000 total_of_1000)
qed

section \<open>Classification\<close>

text \<open>
  C5. A text whose lowered form contains both \<open>invoice\<close> and \<open>invoice no\<close> is classified
  as an invoice, whatever purchase order phrases it contains: the invoice test comes
  first.
\<close>

theorem invoice_wins:
  assumes "sublist ''invoice'' (lower text)" and "sublist ''invoice no'' (lower text)"
  shows "classify text = Invoice"
  using assms by (simp add: classify_def is_invoice_def)

lemma lower_example:
  "lower ''Purchase Order for Invoice No 7'' = ''purchase order for invoice no 7''"
  by (simp add: lower_def lower_char_def ascii_lower_def code_point_def)

theorem invoice_wins_witness:
  "sublist ''invoice'' (lower ''Purchase Order for Invoice No 7'')
   \<and> sublist ''invoice no'' (lower ''Purchase Order for Invoice No 7'')
   \<and> is_po ''Purchase Order for Invoice No 7''
   \<and> classify ''Purchase Order for Invoice No 7'' = Invoice"
proof -
  have a: "sublist ''invoice'' (lower ''Purchase Order for Invoice No 7'')"
    by (simp add: lower_example sublist_code)
  have b: "sublist ''invoice no'' (lower ''Purchase Order for Invoice No 7'')"
    by (simp add: lower_example sublist_code)
  have c: "is_po ''Purchase Order for Invoice No 7''"
    by (simp add: is_po_def lower_example sublist_code)
  show ?thesis using a b c invoice_wins [OF a b] by simp
qed

section \<open>Dates\<close>

lemmas date_eval = parse_date_def formats_def strptime_def directive_d_def directive_b_def
  directive_m_def directive_y_def directive_Y_def nonzero_digit_def is_digit_def digit_value_def
  nat_of_digits_def month_names_def lower_def lower_char_def ascii_lower_def
  code_point_def valid_date_def days_in_month_def is_leap_def strftime_def digit_char_def
  month_abbr_def Let_def

text \<open>Some dates, as Python normalises them.\<close>

lemma parse_date_examples:
  "parse_date ''01-Jan-24'' = ''01-Jan-2024''"
  "parse_date ''05-Jan-24'' = ''05-Jan-2024''"
  "parse_date ''5/3/1999'' = ''05-Mar-1999''"
  "parse_date ''29-feb-2024'' = ''29-Feb-2024''"
  "parse_date ''31-Feb-24'' = ''31-Feb-24''"
  "parse_date ''2024-01-05'' = ''2024-01-05''"
  by (simp_all add: date_eval)

subsection \<open>Digits\<close>



subsection \<open>Reading back what \<open>strftime\<close> writes\<close>














end
